theory Spec2Isabelle
  imports
    Main
    "HOL-Library.FSet"
    "HOL-Library.Char_ord"
    "HOL-Library.List_Lexorder"
    "HOL-Library.Product_Lexorder"
begin

section \<open>Strings\<close>

text \<open>
  Python strings are modelled as \<^typ>\<open>string\<close>, read as the UTF-8 bytes of the text.
  The order of \<^typ>\<open>string\<close> is the lexicographic order of the bytes, which on UTF-8
  coincides with Python's comparison of strings by code point.
\<close>

definition newline :: string where
  "newline = [CHR 0x0A]"

text \<open>The em dash (U+2014) of the bullet suffix, as its three UTF-8 bytes.\<close>

definition em_dash :: string where
  "em_dash = [CHR 0xE2, CHR 0x80, CHR 0x94]"

text \<open>\<^verbatim>\<open>sep.join(xs)\<close>\<close>

fun join :: "string \<Rightarrow> string list \<Rightarrow> string" where
  "join sep [] = []"
| "join sep [x] = x"
| "join sep (x # y # ys) = x @ sep @ join sep (y # ys)"

text \<open>\<^verbatim>\<open>s.startswith(p)\<close>\<close>

definition startswith :: "string \<Rightarrow> string \<Rightarrow> bool" where
  "startswith s p \<longleftrightarrow> take (length p) s = p"

text \<open>
  \<^verbatim>\<open>s.replace(old, new)\<close>: every non-overlapping occurrence, from the left; an empty
  \<^verbatim>\<open>old\<close> matches before every character and at the end.
\<close>

function replace :: "string \<Rightarrow> string \<Rightarrow> string \<Rightarrow> string" where
  "replace old new s =
     (if old = [] then new @ concat (map (\<lambda>c. c # new) s)
      else if s = [] then []
      else if take (length old) s = old then new @ replace old new (drop (length old) s)
      else hd s # replace old new (tl s))"
  by pat_completeness auto
termination
  by (relation "measure (\<lambda>(old, new, s). length s)") auto

declare replace.simps [simp del]

text \<open>\<^verbatim>\<open>str(n)\<close> for an integer, as an f-string renders \<^verbatim>\<open>{year}\<close>.\<close>

definition digit_char :: "nat \<Rightarrow> char" where
  "digit_char d = char_of (48 + d)"

fun str_nat :: "nat \<Rightarrow> string" where
  "str_nat n = (if n < 10 then [digit_char n] else str_nat (n div 10) @ [digit_char (n mod 10)])"

declare str_nat.simps [simp del]

definition str_int :: "int \<Rightarrow> string" where
  "str_int i = (if i < 0 then CHR ''-'' # str_nat (nat (- i)) else str_nat (nat i))"


section \<open>Query builder (github\_api.py)\<close>

definition build_current_year_query :: string where
  "build_current_year_query = join newline
     ['''',
      ''        contributionsCollection {'',
      ''            commitContributionsByRepository(maxRepositories: 100) {'',
      ''                repository { nameWithOwner url isPrivate isFork }'',
      ''            }'',
      ''            pullRequestContributionsByRepository(maxRepositories: 100) {'',
      ''                repository { nameWithOwner url isPrivate isFork }'',
      ''            }'',
      ''            issueContributionsByRepository(maxRepositories: 100) {'',
      ''                repository { nameWithOwner url isPrivate isFork }'',
      ''            }'',
      ''            pullRequestReviewContributionsByRepository(maxRepositories: 100) {'',
      ''                repository { nameWithOwner url isPrivate isFork }'',
      ''            }'',
      ''            repositoryContributions(first: 100) {'',
      ''                edges { node { repository { nameWithOwner url isPrivate isFork } } }'',
      ''            }'',
      ''        }'',
      ''    '']"

text \<open>The alias of a historical block: \<^verbatim>\<open>contributionsCollection{year}\<close>.\<close>

definition year_alias :: "int \<Rightarrow> string" where
  "year_alias year = ''contributionsCollection'' @ str_int year"

definition build_year_query :: "int \<Rightarrow> string" where
  \<open>build_year_query year = join newline
     ['''',
      ''        '' @ year_alias year @ '': contributionsCollection(from: "'' @ str_int year
         @ ''-01-01T00:00:00Z", to: "'' @ str_int year @ ''-12-31T23:59:59Z") {'',
      ''            commitContributionsByRepository(maxRepositories: 100) {'',
      ''                repository { nameWithOwner url isPrivate isFork }'',
      ''            }'',
      ''            pullRequestContributionsByRepository(maxRepositories: 100) {'',
      ''                repository { nameWithOwner url isPrivate isFork }'',
      ''            }'',
      ''            repositoryContributions(first: 100) {'',
      ''                edges { node { repository { nameWithOwner url isPrivate isFork } } }'',
      ''            }'',
      ''        }'',
      ''    '']\<close>

text \<open>
  The list \<^verbatim>\<open>contributions_queries\<close> after the loop over
  \<^verbatim>\<open>range(created_year, current_year)\<close>, each pass appending one block.
\<close>

definition contributions_queries :: "int \<Rightarrow> int \<Rightarrow> string list" where
  "contributions_queries created_year current_year =
     foldl (\<lambda>qs year. qs @ [build_year_query year])
       [build_current_year_query] [created_year..current_year - 1]"

definition build_contributions_query :: "int \<Rightarrow> int \<Rightarrow> string" where
  \<open>build_contributions_query created_year current_year = join newline
     ['''',
      ''    {'',
      ''        user(login: "{username}") {'',
      ''            '' @ join newline (contributions_queries created_year current_year),
      ''        }'',
      ''    }'',
      ''    '']\<close>

section \<open>API client (github\_api.py)\<close>

text \<open>
  A parsed JSON response is a dictionary whose keys may be absent or hold \<^verbatim>\<open>null\<close>.
  \<^verbatim>\<open>d[k]\<close> raises \<^verbatim>\<open>KeyError\<close> on an absent key, subscripting \<^verbatim>\<open>None\<close> raises
  \<^verbatim>\<open>TypeError\<close>, and calling \<^verbatim>\<open>.get\<close> or \<^verbatim>\<open>.replace\<close> on \<^verbatim>\<open>None\<close> raises
  \<^verbatim>\<open>AttributeError\<close>.
\<close>

datatype py_exc =
  RequestException | JSONDecodeError | KeyError | TypeError | AttributeError | ValueError

datatype 'a field = Missing | Null | Val 'a

record repository =
  nameWithOwner :: string
  url :: string
  isPrivate :: bool
  isFork :: bool

text \<open>
  A contribution collection. A list field is \<^term>\<open>None\<close> when its key is absent; an entry
  of a list stands for \<^verbatim>\<open>{'repository': repo}\<close>. For \<^verbatim>\<open>repositoryContributions\<close> the outer
  option is the key itself, the inner one the key \<^verbatim>\<open>edges\<close>, and an entry stands for
  \<^verbatim>\<open>{'node': {'repository': repo}}\<close>.
\<close>

record contribution_collection =
  commitContributionsByRepository :: "repository list option"
  pullRequestContributionsByRepository :: "repository list option"
  issueContributionsByRepository :: "repository list option"
  pullRequestReviewContributionsByRepository :: "repository list option"
  repositoryContributions :: "repository list option option"

text \<open>The items of the \<^verbatim>\<open>user\<close> object, in order; a value is \<^term>\<open>None\<close> when it is \<^verbatim>\<open>null\<close>.\<close>

type_synonym user_data = "(string \<times> contribution_collection option) list"

record viewer_obj =
  login :: "string field"

record user_obj =
  createdAt :: "string field"
  collections :: user_data

record gql_data =
  viewer :: "viewer_obj field"
  user :: "user_obj field"

text \<open>\<^term>\<open>has_errors\<close> says that the key \<^verbatim>\<open>errors\<close> is in the dictionary.\<close>

record response_body =
  has_errors :: bool
  data :: "gql_data field"

record request =
  req_url :: string
  req_query :: string
  req_authorization :: string

text \<open>
  What \<^verbatim>\<open>requests.post(...)\<close> followed by \<^verbatim>\<open>response.json()\<close> can do: the transport
  fails, the body is not JSON, or the body parses.
\<close>

datatype http_outcome = TransportFailure | NotJSON | Json response_body

text \<open>
  The world outside the module: the endpoint, \<^verbatim>\<open>datetime.fromisoformat(s).year\<close>
  (\<^term>\<open>None\<close> where it raises \<^verbatim>\<open>ValueError\<close>) and \<^verbatim>\<open>datetime.now().year\<close>.
\<close>

record environment =
  http_post :: "request \<Rightarrow> http_outcome"
  fromisoformat_year :: "string \<Rightarrow> int option"
  now_year :: int

definition API_URL :: string where
  "API_URL = ''https://api.github.com/graphql''"

text \<open>
  The request of the three functions: the query as the JSON body and the token in the
  \<^verbatim>\<open>Authorization\<close> header.
\<close>

definition graphql_request :: "string \<Rightarrow> string \<Rightarrow> request" where
  "graphql_request query token =
     \<lparr>req_url = API_URL, req_query = query, req_authorization = ''bearer '' @ token\<rparr>"

text \<open>\<^verbatim>\<open>response = requests.post(...)\<close> and \<^verbatim>\<open>response.json()\<close>, with what they raise.\<close>

definition post_json :: "environment \<Rightarrow> string \<Rightarrow> string \<Rightarrow> py_exc + response_body" where
  "post_json env query token =
     (case http_post env (graphql_request query token) of
        TransportFailure \<Rightarrow> Inl RequestException
      | NotJSON \<Rightarrow> Inl JSONDecodeError
      | Json body \<Rightarrow> Inr body)"

definition viewer_query :: string where
  "viewer_query = join newline
     ['''',
      ''    {'',
      ''      viewer {'',
      ''        login'',
      ''      }'',
      ''    }'',
      ''    '']"

definition test_github_auth :: "environment \<Rightarrow> string \<Rightarrow> string \<Rightarrow> py_exc + bool" where
  "test_github_auth env username token =
     (case post_json env viewer_query token of
        Inl e \<Rightarrow> Inl e
      | Inr body \<Rightarrow>
          if has_errors body then Inr False
          else (case data body of
                  Null \<Rightarrow> Inl AttributeError
                | Missing \<Rightarrow> Inr False
                | Val d \<Rightarrow>
                    (case viewer d of
                       Null \<Rightarrow> Inl AttributeError
                     | Missing \<Rightarrow> Inr False
                     | Val v \<Rightarrow>
                         (case login v of
                            Missing \<Rightarrow> Inr False
                          | Null \<Rightarrow> Inr False
                          | Val l \<Rightarrow> Inr True))))"

definition user_info_query :: "string \<Rightarrow> string" where
  \<open>user_info_query username = join newline
     ['''',
      ''    {'',
      ''        user(login: "'' @ username @ ''") {'',
      ''            createdAt'',
      ''        }'',
      ''    }'',
      ''    '']\<close>

definition get_user_creation_year :: "environment \<Rightarrow> string \<Rightarrow> string \<Rightarrow> py_exc + int option" where
  "get_user_creation_year env username token =
     (case post_json env (user_info_query username) token of
        Inl e \<Rightarrow> Inl e
      | Inr body \<Rightarrow>
          if has_errors body then Inr None
          else (case data body of
                  Missing \<Rightarrow> Inl KeyError
                | Null \<Rightarrow> Inl TypeError
                | Val d \<Rightarrow>
                    (case user d of
                       Missing \<Rightarrow> Inl KeyError
                     | Null \<Rightarrow> Inl TypeError
                     | Val u \<Rightarrow>
                         (case createdAt u of
                            Missing \<Rightarrow> Inl KeyError
                          | Null \<Rightarrow> Inl AttributeError
                          | Val created_at \<Rightarrow>
                              (case fromisoformat_year env (replace ''Z'' ''+00:00'' created_at) of
                                 None \<Rightarrow> Inl ValueError
                               | Some y \<Rightarrow> Inr (Some y))))))"

text \<open>The result is \<^verbatim>\<open>data['data']['user']\<close>, which is \<^verbatim>\<open>None\<close> when the key holds \<^verbatim>\<open>null\<close>.\<close>

definition fetch_contributions_data ::
  "environment \<Rightarrow> string \<Rightarrow> string \<Rightarrow> string \<Rightarrow> py_exc + user_obj option" where
  "fetch_contributions_data env username token query =
     (case post_json env (replace ''{username}'' username query) token of
        Inl e \<Rightarrow> Inl e
      | Inr body \<Rightarrow>
          if has_errors body then Inr None
          else (case data body of
                  Missing \<Rightarrow> Inl KeyError
                | Null \<Rightarrow> Inl TypeError
                | Val d \<Rightarrow>
                    (case user d of
                       Missing \<Rightarrow> Inl KeyError
                     | Null \<Rightarrow> Inr None
                     | Val u \<Rightarrow> Inr (Some u))))"

section \<open>Contribution aggregator (github\_api.py)\<close>

text \<open>A Python set of tuples \<^verbatim>\<open>(nameWithOwner, url)\<close> is a finite set of pairs.\<close>

type_synonym repo_tuple = "string \<times> string"

text \<open>
  \<^verbatim>\<open>_add_repo_if_valid\<close> mutates \<^verbatim>\<open>repo_set\<close> and \<^verbatim>\<open>repos_all\<close>; the model returns
  both, updated.
\<close>

definition add_repo_if_valid ::
  "repo_tuple fset \<Rightarrow> repository \<Rightarrow> repo_tuple fset \<Rightarrow> repo_tuple fset \<times> repo_tuple fset" where
  "add_repo_if_valid repo_set repo repos_all_set =
     (if \<not> isPrivate repo \<and> \<not> isFork repo
      then (let repo_tuple = (nameWithOwner repo, url repo)
            in (finsert repo_tuple repo_set, finsert repo_tuple repos_all_set))
      else (repo_set, repos_all_set))"

text \<open>The three sets that the aggregator fills while it walks the payload.\<close>

record working_sets =
  repos_commit :: "repo_tuple fset"
  repos_pr :: "repo_tuple fset"
  repos_all :: "repo_tuple fset"

text \<open>\<^verbatim>\<open>cc.get(key, [])\<close>\<close>

definition get_list :: "'a list option \<Rightarrow> 'a list" where
  "get_list field_value = (case field_value of None \<Rightarrow> [] | Some xs \<Rightarrow> xs)"

text \<open>\<^verbatim>\<open>cc.get('repositoryContributions', {}).get('edges', [])\<close>\<close>

definition get_edges :: "'a list option option \<Rightarrow> 'a list" where
  "get_edges field_value = (case field_value of None \<Rightarrow> [] | Some edges \<Rightarrow> get_list edges)"

text \<open>A loop that adds every repository of a list to a named set and to \<^verbatim>\<open>repos_all\<close>.\<close>

definition add_each ::
  "repository list \<Rightarrow> repo_tuple fset \<times> repo_tuple fset \<Rightarrow> repo_tuple fset \<times> repo_tuple fset" where
  "add_each items sets =
     foldl (\<lambda>(repo_set, repos_all_set) repo. add_repo_if_valid repo_set repo repos_all_set) sets items"

text \<open>The same loop with a fresh \<^verbatim>\<open>set()\<close> at every pass, which is then dropped.\<close>

definition add_each_other :: "repository list \<Rightarrow> repo_tuple fset \<Rightarrow> repo_tuple fset" where
  "add_each_other items repos_all_set =
     foldl (\<lambda>acc repo. snd (add_repo_if_valid {||} repo acc)) repos_all_set items"

definition process_contribution_collection ::
  "contribution_collection \<Rightarrow> working_sets \<Rightarrow> bool \<Rightarrow> working_sets" where
  "process_contribution_collection cc ws is_current_year =
     (let (commit1, all1) =
            add_each (get_list (commitContributionsByRepository cc)) (repos_commit ws, repos_all ws);
          (pr1, all2) =
            add_each (get_list (pullRequestContributionsByRepository cc)) (repos_pr ws, all1);
          all3 =
            (if is_current_year
             then add_each_other (get_list (pullRequestReviewContributionsByRepository cc))
                    (add_each_other (get_list (issueContributionsByRepository cc)) all2)
             else all2);
          all4 = add_each_other (get_edges (repositoryContributions cc)) all3
      in \<lparr>repos_commit = commit1, repos_pr = pr1, repos_all = all4\<rparr>)"

text \<open>\<^verbatim>\<open>not cc\<close>: the value is \<^verbatim>\<open>null\<close> or a dictionary with no key.\<close>

definition cc_falsy :: "contribution_collection option \<Rightarrow> bool" where
  "cc_falsy cc =
     (case cc of
        None \<Rightarrow> True
      | Some c \<Rightarrow>
          commitContributionsByRepository c = None
          \<and> pullRequestContributionsByRepository c = None
          \<and> issueContributionsByRepository c = None
          \<and> pullRequestReviewContributionsByRepository c = None
          \<and> repositoryContributions c = None)"

text \<open>
  The loop of \<^verbatim>\<open>_extract_repositories_data\<close> over \<^verbatim>\<open>user_data.items()\<close>: one pass,
  then the whole loop from the three empty sets.
\<close>

definition collect_step ::
  "working_sets \<Rightarrow> string \<times> contribution_collection option \<Rightarrow> working_sets" where
  "collect_step ws item =
     (case item of (key, cc) \<Rightarrow>
        if \<not> startswith key ''contributionsCollection'' \<or> cc_falsy cc then ws
        else (case cc of
                None \<Rightarrow> ws
              | Some c \<Rightarrow>
                  process_contribution_collection c ws (key = ''contributionsCollection'')))"

definition collect_working_sets :: "user_data \<Rightarrow> working_sets" where
  "collect_working_sets items =
     foldl collect_step \<lparr>repos_commit = {||}, repos_pr = {||}, repos_all = {||}\<rparr> items"

record repos_data =
  repos_commit_only :: "repo_tuple fset"
  repos_pr_only :: "repo_tuple fset"
  repos_other :: "repo_tuple fset"

definition extract_repositories_data :: "user_data \<Rightarrow> repos_data" where
  "extract_repositories_data items =
     (let ws = collect_working_sets items
      in \<lparr>repos_commit_only = ffilter (\<lambda>r. r |\<notin>| repos_pr ws) (repos_commit ws),
          repos_pr_only = repos_pr ws,
          repos_other = repos_all ws |-| repos_commit ws |-| repos_pr ws\<rparr>)"





text \<open>
  Every repository object that occurs anywhere in a payload, whatever the key of its
  collection and whatever the contribution type it is listed under.
\<close>

definition collection_repositories :: "contribution_collection \<Rightarrow> repository list" where
  "collection_repositories cc =
     get_list (commitContributionsByRepository cc)
     @ get_list (pullRequestContributionsByRepository cc)
     @ get_list (issueContributionsByRepository cc)
     @ get_list (pullRequestReviewContributionsByRepository cc)
     @ get_edges (repositoryContributions cc)"

text \<open>The tuples of the public, non-fork repositories of a list.\<close>

definition admitted :: "repository list \<Rightarrow> repo_tuple fset" where
  "admitted items =
     fset_of_list (map (\<lambda>r. (nameWithOwner r, url r))
                     (filter (\<lambda>r. \<not> isPrivate r \<and> \<not> isFork r) items))"

definition payload_repositories :: "user_data \<Rightarrow> repository list" where
  "payload_repositories items =
     concat (map (\<lambda>(key, cc). case cc of None \<Rightarrow> [] | Some c \<Rightarrow> collection_repositories c) items)"

section \<open>Document renderer (github\_api.py)\<close>

text \<open>The translator is the function \<^verbatim>\<open>translator.get_text\<close>; a comment dictionary is a map.\<close>

definition bullet_line :: "(string \<rightharpoonup> string) \<Rightarrow> repo_tuple \<Rightarrow> string" where
  "bullet_line user_comments repo =
     (case repo of (name, link) \<Rightarrow>
        (let line = ''- ['' @ name @ '']('' @ link @ '')''
         in (case user_comments name of
               Some comment \<Rightarrow> line @ '' '' @ em_dash @ '' '' @ comment
             | None \<Rightarrow> line)))"

definition build_readme_section ::
  "string \<Rightarrow> repo_tuple fset \<Rightarrow> (string \<rightharpoonup> string) \<Rightarrow> (string \<Rightarrow> string) \<Rightarrow> string list" where
  "build_readme_section section_key repos_set user_comments get_text =
     (if repos_set = {||} then []
      else (''## '' @ get_text section_key @ newline)
             # map (bullet_line user_comments) (sorted_list_of_fset repos_set))"

text \<open>The list \<^verbatim>\<open>lines\<close> of \<^verbatim>\<open>_build_readme_content\<close>, before it is joined.\<close>

definition readme_lines ::
  "string \<Rightarrow> repos_data \<Rightarrow> (string \<rightharpoonup> string) \<Rightarrow> (string \<Rightarrow> string) \<Rightarrow> string list" where
  "readme_lines username rd user_comments get_text =
     (let commit_lines =
            build_readme_section ''categories.commit_only'' (repos_commit_only rd)
              user_comments get_text;
          pr_lines =
            build_readme_section ''categories.pull_requests'' (repos_pr_only rd)
              user_comments get_text;
          other_lines =
            build_readme_section ''categories.other_contributions'' (repos_other rd)
              user_comments get_text
      in [''# '' @ get_text ''categories.profile_git'' @ '' : '' @ username @ newline]
         @ commit_lines
         @ (if pr_lines \<noteq> [] then [''''] @ pr_lines else [])
         @ (if other_lines \<noteq> [] then [''''] @ other_lines else []))"

definition build_readme_content ::
  "string \<Rightarrow> repos_data \<Rightarrow> (string \<rightharpoonup> string) \<Rightarrow> (string \<Rightarrow> string) \<Rightarrow> string" where
  "build_readme_content username rd user_comments get_text =
     join newline (readme_lines username rd user_comments get_text)"

text \<open>
  The second component of the result is \<^term>\<open>None\<close> for the empty dictionary \<^verbatim>\<open>{}\<close> of
  the two early returns.
\<close>

definition generate_readme_content ::
  "environment \<Rightarrow> string \<Rightarrow> string \<Rightarrow> (string \<rightharpoonup> string) \<Rightarrow> (string \<Rightarrow> string)
     \<Rightarrow> py_exc + (string \<times> repos_data option)" where
  "generate_readme_content env username token user_comments get_text =
     (case get_user_creation_year env username token of
        Inl e \<Rightarrow> Inl e
      | Inr None \<Rightarrow> Inr ('''', None)
      | Inr (Some created_year) \<Rightarrow>
          (let current_year = now_year env;
               query = build_contributions_query created_year current_year
           in (case fetch_contributions_data env username token query of
                 Inl e \<Rightarrow> Inl e
               | Inr None \<Rightarrow> Inr ('''', None)
               | Inr (Some u) \<Rightarrow>
                   (let rd = extract_repositories_data (collections u);
                        readme_content = build_readme_content username rd user_comments get_text
                    in Inr (readme_content, Some rd)))))"

section \<open>Configuration (config\_manager.py)\<close>

text \<open>
  The JSON dictionary of the configuration file; a field is \<^term>\<open>None\<close> when its key is
  absent. The entry of a user in \<^verbatim>\<open>user_configs\<close> is itself a dictionary, whose key
  \<^verbatim>\<open>comments\<close> holds the comments of that user.
\<close>

type_synonym user_config = "string \<rightharpoonup> (string \<rightharpoonup> string)"

record config_data =
  cfg_username :: "string option"
  cfg_username_history :: "string list option"
  cfg_token :: "string option"
  cfg_theme :: "string option"
  cfg_language :: "string option"
  cfg_user_configs :: "(string \<rightharpoonup> user_config) option"

text \<open>The file is absent, cannot be read as JSON, or holds a dictionary.\<close>

datatype config_file = NoFile | Unreadable | Stored config_data

definition empty_config :: config_data where
  "empty_config =
     \<lparr>cfg_username = None, cfg_username_history = None, cfg_token = None, cfg_theme = None,
      cfg_language = None, cfg_user_configs = None\<rparr>"

definition read_existing_data :: "config_file \<Rightarrow> config_data" where
  "read_existing_data file =
     (case file of NoFile \<Rightarrow> empty_config | Unreadable \<Rightarrow> empty_config | Stored d \<Rightarrow> d)"

text \<open>\<^verbatim>\<open>existing_data.get("username_history", [])\<close>\<close>

definition stored_history :: "config_file \<Rightarrow> string list" where
  "stored_history file =
     (case cfg_username_history (read_existing_data file) of None \<Rightarrow> [] | Some h \<Rightarrow> h)"

text \<open>\<^verbatim>\<open>existing_data.get("user_configs", {})\<close>\<close>

definition stored_user_configs :: "config_file \<Rightarrow> (string \<rightharpoonup> user_config)" where
  "stored_user_configs file =
     (case cfg_user_configs (read_existing_data file) of None \<Rightarrow> Map.empty | Some ucs \<Rightarrow> ucs)"

text \<open>
  \<^verbatim>\<open>save_config\<close>, as the dictionary it writes. The Base64 encoding of the token is
  the parameter \<^verbatim>\<open>b64encode\<close>; \<^verbatim>\<open>list.remove\<close> deletes the first occurrence.
\<close>

definition save_config ::
  "(string \<Rightarrow> string) \<Rightarrow> config_file \<Rightarrow> string \<Rightarrow> string \<Rightarrow> string
     \<Rightarrow> (string \<rightharpoonup> string) option \<Rightarrow> string option \<Rightarrow> config_data" where
  "save_config b64encode file username token theme user_comments language =
     (let existing_data = read_existing_data file;
          history0 = stored_history file;
          history1 = (if username \<in> set history0 then remove1 username history0 else history0);
          history2 = username # history1;
          username_history = take 10 history2;
          user_configs0 = stored_user_configs file;
          user_configs =
            (case user_comments of
               None \<Rightarrow> user_configs0
             | Some comments \<Rightarrow>
                 user_configs0
                   (username \<mapsto>
                      (case user_configs0 username of None \<Rightarrow> Map.empty | Some uc \<Rightarrow> uc)
                        (''comments'' \<mapsto> comments)))
      in \<lparr>cfg_username = Some username,
          cfg_username_history = Some username_history,
          cfg_token = Some (b64encode token),
          cfg_theme = Some theme,
          cfg_language =
            Some (case language of
                    Some l \<Rightarrow> l
                  | None \<Rightarrow> (case cfg_language existing_data of None \<Rightarrow> ''en'' | Some l \<Rightarrow> l)),
          cfg_user_configs = Some user_configs\<rparr>)"

section \<open>Sample inputs\<close>

text \<open>A payload with a current-year block and one historical block.\<close>

definition sample_user_data :: user_data where
  "sample_user_data =
     [(''contributionsCollection'',
       Some \<lparr>commitContributionsByRepository =
               Some [\<lparr>nameWithOwner = ''org/repo-a'', url = ''ua'', isPrivate = False, isFork = False\<rparr>,
                     \<lparr>nameWithOwner = ''me/secret'', url = ''us'', isPrivate = True, isFork = False\<rparr>],
             pullRequestContributionsByRepository =
               Some [\<lparr>nameWithOwner = ''org/repo-a'', url = ''ua'', isPrivate = False, isFork = False\<rparr>,
                     \<lparr>nameWithOwner = ''me/fork'', url = ''uf'', isPrivate = False, isFork = True\<rparr>],
             issueContributionsByRepository =
               Some [\<lparr>nameWithOwner = ''org/repo-b'', url = ''ub'', isPrivate = False, isFork = False\<rparr>],
             pullRequestReviewContributionsByRepository = None,
             repositoryContributions = Some None\<rparr>),
      (''contributionsCollection2023'',
       Some \<lparr>commitContributionsByRepository =
               Some [\<lparr>nameWithOwner = ''me/tool'', url = ''ut'', isPrivate = False, isFork = False\<rparr>],
             pullRequestContributionsByRepository = None,
             issueContributionsByRepository = None,
             pullRequestReviewContributionsByRepository = None,
             repositoryContributions = None\<rparr>)]"

text \<open>A configuration file with a full history of ten names and the comments of two users.\<close>

definition sample_config_file :: config_file where
  "sample_config_file =
     Stored \<lparr>cfg_username = Some ''u0'',
             cfg_username_history =
               Some [''u0'', ''u1'', ''u2'', ''u3'', ''u4'', ''u5'', ''u6'', ''u7'', ''u8'', ''u9''],
             cfg_token = Some ''dG9r'',
             cfg_theme = Some ''dark'',
             cfg_language = Some ''fr'',
             cfg_user_configs =
               Some [''u0'' \<mapsto> [''comments'' \<mapsto> [''org/repo-a'' \<mapsto> ''old'']],
                     ''u1'' \<mapsto> [''comments'' \<mapsto> [''me/tool'' \<mapsto> ''mine'']]]\<rparr>"

text \<open>
  Worlds for the API client: an endpoint given as a function of the request, a clock in 2024
  and a parser that knows one timestamp. \<^term>\<open>sample_post\<close> answers the account query of
  \<^verbatim>\<open>octocat\<close> with a creation date and every other request with the given body.
\<close>

definition sample_env :: "(request \<Rightarrow> http_outcome) \<Rightarrow> environment" where
  "sample_env post =
     \<lparr>http_post = post,
      fromisoformat_year = (\<lambda>s. if s = ''2020-01-15T10:00:00+00:00'' then Some 2020 else None),
      now_year = 2024\<rparr>"

definition viewer_body :: "string field \<Rightarrow> response_body" where
  "viewer_body l =
     \<lparr>has_errors = False, data = Val \<lparr>viewer = Val \<lparr>login = l\<rparr>, user = Missing\<rparr>\<rparr>"

definition errors_body :: response_body where
  "errors_body = \<lparr>has_errors = True, data = Null\<rparr>"

definition lookup_body :: response_body where
  "lookup_body =
     \<lparr>has_errors = False,
      data = Val \<lparr>viewer = Missing,
                  user = Val \<lparr>createdAt = Val ''2020-01-15T10:00:00Z'', collections = []\<rparr>\<rparr>\<rparr>"

definition sample_post :: "response_body \<Rightarrow> request \<Rightarrow> http_outcome" where
  "sample_post fetch_body r =
     (if req_query r = user_info_query ''octocat'' then Json lookup_body else Json fetch_body)"

section \<open>The aggregator keeps its three sets inside the superset\<close>

lemma add_each_eq:
  "add_each items (s, a) = (s |\<union>| admitted items, a |\<union>| admitted items)"
proof (induction items arbitrary: s a)
  case Nil
  show ?case by (simp add: add_each_def admitted_def)
next
  case (Cons r rs)
  have "add_each (r # rs) (s, a) = add_each rs (add_repo_if_valid s r a)"
    by (simp add: add_each_def)
  then show ?case
    using Cons.IH by (auto simp: add_repo_if_valid_def admitted_def Let_def)
qed

lemma add_each_other_eq:
  "add_each_other items a = a |\<union>| admitted items"
proof (induction items arbitrary: a)
  case Nil
  show ?case by (simp add: add_each_other_def admitted_def)
next
  case (Cons r rs)
  have "add_each_other (r # rs) a = add_each_other rs (snd (add_repo_if_valid {||} r a))"
    by (simp add: add_each_other_def)
  then show ?case
    using Cons.IH by (auto simp: add_repo_if_valid_def admitted_def Let_def)
qed

lemma process_eq:
  "process_contribution_collection cc ws cur =
     \<lparr>repos_commit = repos_commit ws |\<union>| admitted (get_list (commitContributionsByRepository cc)),
      repos_pr = repos_pr ws |\<union>| admitted (get_list (pullRequestContributionsByRepository cc)),
      repos_all = repos_all ws
        |\<union>| admitted (get_list (commitContributionsByRepository cc))
        |\<union>| admitted (get_list (pullRequestContributionsByRepository cc))
        |\<union>| (if cur then admitted (get_list (issueContributionsByRepository cc))
                        |\<union>| admitted (get_list (pullRequestReviewContributionsByRepository cc))
             else {||})
        |\<union>| admitted (get_edges (repositoryContributions cc))\<rparr>"
  by (cases cur)
    (simp_all add: process_contribution_collection_def add_each_eq add_each_other_eq Let_def
      funion_assoc)

lemma process_subset:
  assumes "repos_commit ws |\<subseteq>| repos_all ws" "repos_pr ws |\<subseteq>| repos_all ws"
  shows "repos_commit (process_contribution_collection cc ws cur)
           |\<subseteq>| repos_all (process_contribution_collection cc ws cur)
         \<and> repos_pr (process_contribution_collection cc ws cur)
           |\<subseteq>| repos_all (process_contribution_collection cc ws cur)"
  using assms by (auto simp: process_eq)

lemma foldl_collect_subset:
  assumes "repos_commit ws |\<subseteq>| repos_all ws" "repos_pr ws |\<subseteq>| repos_all ws"
  shows "repos_commit (foldl collect_step ws items) |\<subseteq>| repos_all (foldl collect_step ws items)
         \<and> repos_pr (foldl collect_step ws items) |\<subseteq>| repos_all (foldl collect_step ws items)"
  using assms
proof (induction items arbitrary: ws)
  case Nil
  then show ?case by simp
next
  case (Cons x xs)
  obtain key cc where x: "x = (key, cc)" by (cases x)
  have "repos_commit (collect_step ws x) |\<subseteq>| repos_all (collect_step ws x)
        \<and> repos_pr (collect_step ws x) |\<subseteq>| repos_all (collect_step ws x)"
    using Cons.prems process_subset [OF Cons.prems]
    by (simp add: collect_step_def x split: option.splits)
  then show ?case using Cons.IH [of "collect_step ws x"] by simp
qed

lemma collect_subset:
  "repos_commit (collect_working_sets items) |\<subseteq>| repos_all (collect_working_sets items)
   \<and> repos_pr (collect_working_sets items) |\<subseteq>| repos_all (collect_working_sets items)"
  using foldl_collect_subset [of "\<lparr>repos_commit = {||}, repos_pr = {||}, repos_all = {||}\<rparr>" items]
  by (simp add: collect_working_sets_def)

lemma admitted_append: "admitted (xs @ ys) = admitted xs |\<union>| admitted ys"
  by (auto simp: admitted_def)

lemma admitted_iff:
  "t |\<in>| admitted items \<longleftrightarrow>
     (\<exists>r \<in> set items. (nameWithOwner r, url r) = t \<and> \<not> isPrivate r \<and> \<not> isFork r)"
  by (auto simp: admitted_def fset_of_list.rep_eq)



















lemma collect_step_all:
  "repos_all (collect_step ws (key, cc))
     |\<subseteq>| repos_all ws
           |\<union>| admitted (case cc of None \<Rightarrow> [] | Some c \<Rightarrow> collection_repositories c)"
  by (auto simp: collect_step_def process_eq collection_repositories_def admitted_append
      split: option.splits)

lemma foldl_collect_all:
  "repos_all (foldl collect_step ws items)
     |\<subseteq>| repos_all ws |\<union>| admitted (payload_repositories items)"
proof (induction items arbitrary: ws)
  case Nil
  show ?case by (simp add: payload_repositories_def)
next
  case (Cons x xs)
  obtain key cc where x: "x = (key, cc)" by (cases x)
  have "repos_all (foldl collect_step (collect_step ws x) xs)
          |\<subseteq>| repos_all (collect_step ws x) |\<union>| admitted (payload_repositories xs)"
    by (rule Cons.IH)
  moreover have "payload_repositories (x # xs) =
      (case cc of None \<Rightarrow> [] | Some c \<Rightarrow> collection_repositories c) @ payload_repositories xs"
    by (simp add: payload_repositories_def x)
  ultimately show ?case
    using collect_step_all [of ws key cc] by (auto simp: x admitted_append)
qed

lemma repos_all_admitted:
  "repos_all (collect_working_sets items) |\<subseteq>| admitted (payload_repositories items)"
  using foldl_collect_all [of "\<lparr>repos_commit = {||}, repos_pr = {||}, repos_all = {||}\<rparr>" items]
  by (simp add: collect_working_sets_def)

lemma outputs_in_all:
  "repos_commit_only (extract_repositories_data items) |\<subseteq>| repos_all (collect_working_sets items)"
  "repos_pr_only (extract_repositories_data items) |\<subseteq>| repos_all (collect_working_sets items)"
  "repos_other (extract_repositories_data items) |\<subseteq>| repos_all (collect_working_sets items)"
  using collect_subset [of items] by (auto simp: extract_repositories_data_def Let_def)

lemma sample_payload:
  "payload_repositories sample_user_data =
     [\<lparr>nameWithOwner = ''org/repo-a'', url = ''ua'', isPrivate = False, isFork = False\<rparr>,
      \<lparr>nameWithOwner = ''me/secret'', url = ''us'', isPrivate = True, isFork = False\<rparr>,
      \<lparr>nameWithOwner = ''org/repo-a'', url = ''ua'', isPrivate = False, isFork = False\<rparr>,
      \<lparr>nameWithOwner = ''me/fork'', url = ''uf'', isPrivate = False, isFork = True\<rparr>,
      \<lparr>nameWithOwner = ''org/repo-b'', url = ''ub'', isPrivate = False, isFork = False\<rparr>,
      \<lparr>nameWithOwner = ''me/tool'', url = ''ut'', isPrivate = False, isFork = False\<rparr>]"
  by (simp add: payload_repositories_def sample_user_data_def collection_repositories_def
      get_list_def get_edges_def)

text \<open>
  Claim C2. A tuple \<^verbatim>\<open>(nameWithOwner, url)\<close> all of whose repository objects in the payload
  are flagged private or fork, under whatever collection key and contribution type they
  occur, is in none of the three returned sets.
\<close>

theorem private_or_fork_never_listed:
  assumes "\<forall>r \<in> set (payload_repositories items).
             (nameWithOwner r, url r) = t \<longrightarrow> isPrivate r \<or> isFork r"
  shows "t |\<notin>| repos_commit_only (extract_repositories_data items)
         \<and> t |\<notin>| repos_pr_only (extract_repositories_data items)
         \<and> t |\<notin>| repos_other (extract_repositories_data items)"
proof -
  have "t |\<notin>| admitted (payload_repositories items)"
    using assms by (auto simp: admitted_iff)
  then have "t |\<notin>| repos_all (collect_working_sets items)"
    using repos_all_admitted [of items] by auto
  then show ?thesis using outputs_in_all [of items] by auto
qed

theorem private_or_fork_never_listed_witness:
  "(''me/secret'', ''us'') |\<notin>| repos_commit_only (extract_repositories_data sample_user_data)
   \<and> (''me/secret'', ''us'') |\<notin>| repos_pr_only (extract_repositories_data sample_user_data)
   \<and> (''me/secret'', ''us'') |\<notin>| repos_other (extract_repositories_data sample_user_data)"
proof -
  have h: "\<forall>r \<in> set (payload_repositories sample_user_data).
       (nameWithOwner r, url r) = (''me/secret'', ''us'') \<longrightarrow> isPrivate r \<or> isFork r"
    by (simp add: sample_payload)
  show ?thesis using private_or_fork_never_listed [OF h] by blast
qed

section \<open>The renderer\<close>

lemma sorted_fst_of_sorted:
  "sorted (xs :: ('a::linorder \<times> 'b::linorder) list) \<Longrightarrow> sorted (map fst xs)"
  by (induction xs) (auto simp: less_eq_prod_def)

lemma strict_fst_of_sorted:
  "sorted (xs :: ('a::linorder \<times> 'b::linorder) list) \<Longrightarrow> distinct (map fst xs)
     \<Longrightarrow> sorted_wrt (<) (map fst xs)"
proof (induction xs)
  case Nil
  then show ?case by simp
next
  case (Cons x xs)
  have "fst x < fst y" if "y \<in> set xs" for y
  proof -
    have "x \<le> y" using Cons.prems(1) that by simp
    then have "fst x \<le> fst y" by (auto simp: less_eq_prod_def)
    moreover have "fst x \<noteq> fst y" using Cons.prems(2) that by auto
    ultimately show ?thesis by simp
  qed
  then show ?case using Cons by auto
qed

lemma sorted_list_of_fset_strict: "sorted_wrt (<) (sorted_list_of_fset S)"
  by (simp add: sorted_list_of_fset.rep_eq)

lemma sorted_list_of_fset_sorted: "sorted (sorted_list_of_fset S)"
  by (simp add: sorted_list_of_fset.rep_eq)

lemma sorted_list_of_fset_distinct: "distinct (sorted_list_of_fset S)"
  by (simp add: sorted_list_of_fset.rep_eq)

lemma fset_of_list_cong: "set xs = set ys \<Longrightarrow> fset_of_list xs = fset_of_list ys"
  by (metis fset_of_list.rep_eq fset_inverse)

lemma section_empty: "build_readme_section k {||} cm gt = []"
  by (simp add: build_readme_section_def)

lemma bullet_with:
  "bullet_line (cm(name \<mapsto> comment)) (name, link) =
     ''- ['' @ name @ '']('' @ link @ '')'' @ '' '' @ em_dash @ '' '' @ comment"
  by (simp add: bullet_line_def)

lemma bullet_without:
  "bullet_line (cm(name := None)) (name, link) = ''- ['' @ name @ '']('' @ link @ '')''"
  by (simp add: bullet_line_def)

lemma admitted_cong: "set xs = set ys \<Longrightarrow> admitted xs = admitted ys"
  unfolding admitted_def by (rule fset_of_list_cong) simp

lemma add_each_ingest: "fst (add_each items ({||}, {||})) = admitted items"
  by (simp add: add_each_eq)

text \<open>
  Claim C3. The bullets of a section follow the heading in the order of \<^verbatim>\<open>sorted(repos_set)\<close>,
  the ordinal order of the tuples \<^verbatim>\<open>(name, url)\<close>. For a category set whose repositories have
  pairwise different full names, as every repository has in the data model, the bullets are
  therefore strictly ascending by full name. The section is a function of the set: two lists
  of tuples with the same elements, and two lists of repositories ingested by
  \<^verbatim>\<open>_add_repo_if_valid\<close> in different orders, give the same lines.
\<close>

theorem section_bullets_sorted:
  "(repos_set \<noteq> {||} \<longrightarrow>
      build_readme_section section_key repos_set user_comments get_text =
        (''## '' @ get_text section_key @ newline)
          # map (bullet_line user_comments) (sorted_list_of_fset repos_set))
   \<and> set (sorted_list_of_fset repos_set) = fset repos_set
   \<and> sorted_wrt (<) (sorted_list_of_fset repos_set)
   \<and> sorted (map fst (sorted_list_of_fset repos_set))
   \<and> (inj_on fst (fset repos_set)
        \<longrightarrow> sorted_wrt (<) (map fst (sorted_list_of_fset repos_set)))
   \<and> (\<forall>xs ys. set xs = set ys \<longrightarrow>
         build_readme_section section_key (fset_of_list xs) user_comments get_text =
         build_readme_section section_key (fset_of_list ys) user_comments get_text)
   \<and> (\<forall>xs ys. set xs = set ys \<longrightarrow>
         build_readme_section section_key (fst (add_each xs ({||}, {||}))) user_comments get_text =
         build_readme_section section_key (fst (add_each ys ({||}, {||}))) user_comments get_text)"
proof -
  have a: "repos_set \<noteq> {||} \<longrightarrow>
      build_readme_section section_key repos_set user_comments get_text =
        (''## '' @ get_text section_key @ newline)
          # map (bullet_line user_comments) (sorted_list_of_fset repos_set)"
    by (simp add: build_readme_section_def)
  have b: "set (sorted_list_of_fset repos_set) = fset repos_set" by simp
  have c: "sorted_wrt (<) (sorted_list_of_fset repos_set)" by (rule sorted_list_of_fset_strict)
  have d: "sorted (map fst (sorted_list_of_fset repos_set))"
    by (rule sorted_fst_of_sorted [OF sorted_list_of_fset_sorted])
  have e: "sorted_wrt (<) (map fst (sorted_list_of_fset repos_set))"
    if "inj_on fst (fset repos_set)"
  proof -
    have "distinct (map fst (sorted_list_of_fset repos_set))"
      using that by (simp add: distinct_map sorted_list_of_fset_distinct)
    then show ?thesis by (rule strict_fst_of_sorted [OF sorted_list_of_fset_sorted])
  qed
  have f: "build_readme_section section_key (fset_of_list xs) user_comments get_text =
         build_readme_section section_key (fset_of_list ys) user_comments get_text"
    if "set xs = set ys" for xs ys
    using fset_of_list_cong [OF that] by simp
  have g: "build_readme_section section_key (fst (add_each xs ({||}, {||}))) user_comments get_text =
         build_readme_section section_key (fst (add_each ys ({||}, {||}))) user_comments get_text"
    if "set xs = set ys" for xs ys
    using admitted_cong [OF that] by (simp add: add_each_ingest)
  show ?thesis
    apply (intro conjI allI impI)
    subgoal using a by simp
    subgoal by (rule b)
    subgoal by (rule c)
    subgoal by (rule d)
    subgoal by (rule e)
    subgoal by (rule f)
    subgoal by (rule g)
    done
qed

theorem section_bullets_sorted_witness:
  "build_readme_section ''k'' {|(''b/x'', ''u2''), (''a/y'', ''u1'')|} Map.empty (\<lambda>k. k) =
        (''## '' @ ''k'' @ newline)
          # map (bullet_line Map.empty) (sorted_list_of_fset {|(''b/x'', ''u2''), (''a/y'', ''u1'')|})
   \<and> sorted_wrt (<) (map fst (sorted_list_of_fset {|(''b/x'', ''u2''), (''a/y'', ''u1'')|}))
   \<and> build_readme_section ''k'' (fset_of_list [(''b/x'', ''u2''), (''a/y'', ''u1'')])
        Map.empty (\<lambda>k. k) =
      build_readme_section ''k'' (fset_of_list [(''a/y'', ''u1''), (''b/x'', ''u2'')])
        Map.empty (\<lambda>k. k)"
proof -
  note T = section_bullets_sorted
    [of "{|(''b/x'', ''u2''), (''a/y'', ''u1'')|}" "''k''" Map.empty "\<lambda>k. k"]
  have ne: "{|(''b/x'', ''u2''), (''a/y'', ''u1'')|} \<noteq> {||}" by simp
  have inj: "inj_on fst (fset {|(''b/x'', ''u2''), (''a/y'', ''u1'')|})" by simp
  have perm: "set [(''b/x'', ''u2''), (''a/y'', ''u1'')] = set [(''a/y'', ''u1''), (''b/x'', ''u2'')]"
    by auto
  have a: "build_readme_section ''k'' {|(''b/x'', ''u2''), (''a/y'', ''u1'')|} Map.empty (\<lambda>k. k) =
        (''## '' @ ''k'' @ newline)
          # map (bullet_line Map.empty) (sorted_list_of_fset {|(''b/x'', ''u2''), (''a/y'', ''u1'')|})"
    by (rule T [THEN conjunct1, THEN mp, OF ne])
  have b: "sorted_wrt (<) (map fst (sorted_list_of_fset {|(''b/x'', ''u2''), (''a/y'', ''u1'')|}))"
    by (rule T [THEN conjunct2, THEN conjunct2, THEN conjunct2, THEN conjunct2, THEN conjunct1,
          THEN mp, OF inj])
  have c: "build_readme_section ''k'' (fset_of_list [(''b/x'', ''u2''), (''a/y'', ''u1'')])
        Map.empty (\<lambda>k. k) =
      build_readme_section ''k'' (fset_of_list [(''a/y'', ''u1''), (''b/x'', ''u2'')])
        Map.empty (\<lambda>k. k)"
    by (rule T [THEN conjunct2, THEN conjunct2, THEN conjunct2, THEN conjunct2, THEN conjunct2,
          THEN conjunct1, THEN spec, THEN spec, THEN mp, OF perm])
  show ?thesis using a b c by (intro conjI)
qed

text \<open>
  Claim C8. The lines of the document are the title line followed by one block per category:
  nothing at all for an empty set, and otherwise the section (heading and bullets), preceded
  by one empty line for the pull-request and the other-contributions categories. When the
  three sets are empty the document is the title line alone.
\<close>

theorem empty_sets_contribute_nothing:
  "(let title = ''# '' @ get_text ''categories.profile_git'' @ '' : '' @ username @ newline;
        commit_block =
          (if repos_commit_only rd = {||} then []
           else build_readme_section ''categories.commit_only'' (repos_commit_only rd)
                  user_comments get_text);
        pr_block =
          (if repos_pr_only rd = {||} then []
           else [''''] @ build_readme_section ''categories.pull_requests'' (repos_pr_only rd)
                  user_comments get_text);
        other_block =
          (if repos_other rd = {||} then []
           else [''''] @ build_readme_section ''categories.other_contributions'' (repos_other rd)
                  user_comments get_text)
    in readme_lines username rd user_comments get_text
         = [title] @ commit_block @ pr_block @ other_block
       \<and> (repos_commit_only rd = {||} \<and> repos_pr_only rd = {||} \<and> repos_other rd = {||}
            \<longrightarrow> readme_lines username rd user_comments get_text = [title]
                \<and> build_readme_content username rd user_comments get_text = title))"
proof -
  have "build_readme_section k S user_comments get_text = [] \<longleftrightarrow> S = {||}" for k S
    by (simp add: build_readme_section_def)
  then show ?thesis
    by (simp add: readme_lines_def build_readme_content_def Let_def section_empty)
qed

theorem empty_sets_contribute_nothing_witness:
  "readme_lines ''octocat''
      \<lparr>repos_commit_only = {||}, repos_pr_only = {||}, repos_other = {||}\<rparr> Map.empty (\<lambda>k. k)
     = [''# categories.profile_git : octocat'' @ newline]
   \<and> build_readme_content ''octocat''
      \<lparr>repos_commit_only = {||}, repos_pr_only = {||}, repos_other = {||}\<rparr> Map.empty (\<lambda>k. k)
     = ''# categories.profile_git : octocat'' @ newline"
  using empty_sets_contribute_nothing
    [of "\<lambda>k. k" "''octocat''"
      "\<lparr>repos_commit_only = {||}, repos_pr_only = {||}, repos_other = {||}\<rparr>" Map.empty]
  by (simp add: Let_def)

text \<open>
  Claim C9. For a repository of the rendered set, the section rendered with a comment stored
  under its full name has, at the position of that repository, the bullet followed by a
  space, an em dash, a space and the comment; rendered again after the comment is deleted
  from the map, the same position holds the bullet without the suffix.
\<close>

theorem annotation_round_trip:
  assumes "(name, link) |\<in>| repos_set"
  shows "\<exists>i < length (sorted_list_of_fset repos_set).
           sorted_list_of_fset repos_set ! i = (name, link)
         \<and> build_readme_section section_key repos_set (user_comments(name \<mapsto> comment)) get_text
             ! Suc i
             = ''- ['' @ name @ '']('' @ link @ '')'' @ '' '' @ em_dash @ '' '' @ comment
         \<and> build_readme_section section_key repos_set
               ((user_comments(name \<mapsto> comment))(name := None)) get_text ! Suc i
             = ''- ['' @ name @ '']('' @ link @ '')''"
proof -
  have "(name, link) \<in> set (sorted_list_of_fset repos_set)" using assms by simp
  then obtain i where i: "i < length (sorted_list_of_fset repos_set)"
    "sorted_list_of_fset repos_set ! i = (name, link)"
    by (metis in_set_conv_nth)
  have ne: "repos_set \<noteq> {||}" using assms by auto
  show ?thesis
    using i ne bullet_with [of user_comments name comment link]
      bullet_without [of "user_comments(name \<mapsto> comment)" name link]
    by (intro exI [of _ i]) (simp add: build_readme_section_def)
qed

theorem annotation_round_trip_witness:
  "(''org/repo-a'', ''url'') |\<in>| {|(''org/repo-a'', ''url'')|}
   \<and> (\<exists>i < length (sorted_list_of_fset {|(''org/repo-a'', ''url'')|}).
           sorted_list_of_fset {|(''org/repo-a'', ''url'')|} ! i = (''org/repo-a'', ''url'')
         \<and> build_readme_section ''k'' {|(''org/repo-a'', ''url'')|}
               (Map.empty(''org/repo-a'' \<mapsto> ''mine'')) (\<lambda>k. k) ! Suc i
             = ''- ['' @ ''org/repo-a'' @ '']('' @ ''url'' @ '')'' @ '' '' @ em_dash @ '' '' @ ''mine''
         \<and> build_readme_section ''k'' {|(''org/repo-a'', ''url'')|}
               ((Map.empty(''org/repo-a'' \<mapsto> ''mine''))(''org/repo-a'' := None)) (\<lambda>k. k) ! Suc i
             = ''- ['' @ ''org/repo-a'' @ '']('' @ ''url'' @ '')'')"
proof -
  have m: "(''org/repo-a'', ''url'') |\<in>| {|(''org/repo-a'', ''url'')|}" by simp
  show ?thesis
    using m annotation_round_trip [OF m, of "''k''" Map.empty "''mine''" "\<lambda>k. k"]
    by blast
qed

section \<open>The configuration\<close>

lemma save_history:
  "cfg_username_history (save_config b64 file username token theme user_comments language)
     = Some (take 10 (username # remove1 username (stored_history file)))"
  by (simp add: save_config_def Let_def remove1_idem)

lemma count_list_notin: "x \<notin> set xs \<Longrightarrow> count_list xs x = 0"
  by (induction xs) auto

text \<open>
  Claim C7. When the stored history has distinct entries, the history written by
  \<^verbatim>\<open>save_config\<close> starts with the saved username, holds it exactly once, has distinct
  entries and at most ten of them; when the stored history has ten entries and the username
  is new, the result is the username followed by the stored history without its last, oldest
  entry.
\<close>

theorem history_update:
  assumes "distinct (stored_history file)"
  shows "\<exists>h. cfg_username_history
               (save_config b64 file username token theme user_comments language) = Some h
           \<and> h = take 10 (username # remove1 username (stored_history file))
           \<and> hd h = username
           \<and> count_list h username = 1
           \<and> distinct h
           \<and> length h \<le> 10
           \<and> (length (stored_history file) = 10 \<and> username \<notin> set (stored_history file)
                \<longrightarrow> h = username # butlast (stored_history file))"
proof -
  let ?old = "stored_history file"
  let ?h = "take 10 (username # remove1 username ?old)"
  have eq: "?h = username # take 9 (remove1 username ?old)" by (simp add: take_Cons')
  have d: "distinct (username # remove1 username ?old)" using assms by simp
  have notin: "username \<notin> set (take 9 (remove1 username ?old))"
    using assms by (auto dest: in_set_takeD)
  have "count_list ?h username = 1"
    using notin by (simp add: eq count_list_notin)
  moreover have "distinct ?h" using d distinct_take by blast
  moreover have "length ?h \<le> 10" by simp
  moreover have "hd ?h = username" by (simp add: eq)
  moreover have "?h = username # butlast ?old"
    if "length ?old = 10" "username \<notin> set ?old"
  proof -
    have "take 9 ?old = butlast ?old" using that(1) by (simp add: butlast_conv_take)
    then show ?thesis using that(2) by (simp add: eq remove1_idem)
  qed
  ultimately show ?thesis using save_history by blast
qed

lemma sample_history:
  "stored_history sample_config_file =
     [''u0'', ''u1'', ''u2'', ''u3'', ''u4'', ''u5'', ''u6'', ''u7'', ''u8'', ''u9'']"
  by (simp add: stored_history_def sample_config_file_def read_existing_data_def)

lemma sample_distinct: "distinct (stored_history sample_config_file)"
  by (simp add: sample_history)

lemma sample_history_new: "take 10 (''new'' # remove1 ''new'' (stored_history sample_config_file))
  = [''new'', ''u0'', ''u1'', ''u2'', ''u3'', ''u4'', ''u5'', ''u6'', ''u7'', ''u8'']"
  by (simp add: sample_history)

lemma sample_history_again: "take 10 (''u3'' # remove1 ''u3'' (stored_history sample_config_file))
  = [''u3'', ''u0'', ''u1'', ''u2'', ''u4'', ''u5'', ''u6'', ''u7'', ''u8'', ''u9'']"
  by (simp add: sample_history)

theorem history_update_witness:
  "cfg_username_history (save_config (\<lambda>t. t) sample_config_file ''new'' ''tok'' ''dark'' None None)
     = Some [''new'', ''u0'', ''u1'', ''u2'', ''u3'', ''u4'', ''u5'', ''u6'', ''u7'', ''u8'']
   \<and> cfg_username_history (save_config (\<lambda>t. t) sample_config_file ''u3'' ''tok'' ''dark'' None None)
     = Some [''u3'', ''u0'', ''u1'', ''u2'', ''u4'', ''u5'', ''u6'', ''u7'', ''u8'', ''u9'']"
proof -
  obtain h1 where a: "cfg_username_history
             (save_config (\<lambda>t. t) sample_config_file ''new'' ''tok'' ''dark'' None None) = Some h1"
      "h1 = take 10 (''new'' # remove1 ''new'' (stored_history sample_config_file))"
    using history_update [OF sample_distinct, of "\<lambda>t. t" "''new''" "''tok''" "''dark''" None None]
    by blast
  obtain h2 where b: "cfg_username_history
             (save_config (\<lambda>t. t) sample_config_file ''u3'' ''tok'' ''dark'' None None) = Some h2"
      "h2 = take 10 (''u3'' # remove1 ''u3'' (stored_history sample_config_file))"
    using history_update [OF sample_distinct, of "\<lambda>t. t" "''u3''" "''tok''" "''dark''" None None]
    by blast
  show ?thesis using a b sample_history_new sample_history_again by simp
qed

text \<open>
  Claim C10. When \<^verbatim>\<open>save_config\<close> is given comments for a username, the written
  \<^verbatim>\<open>user_configs\<close> agrees with the stored one at every other username, and the entry of
  that username differs from its stored entry (or from the empty dictionary) at the key
  \<^verbatim>\<open>comments\<close> only, which holds the given comments. When no language is given, the written
  language is the stored one, and \<^verbatim>\<open>en\<close> when none is stored.
\<close>

theorem comments_frame:
  "(\<exists>ucs. cfg_user_configs
             (save_config b64 file username token theme (Some comments) language) = Some ucs
        \<and> (\<forall>other. other \<noteq> username \<longrightarrow> ucs other = stored_user_configs file other)
        \<and> (\<exists>uc. ucs username = Some uc
               \<and> uc ''comments'' = Some comments
               \<and> (\<forall>key. key \<noteq> ''comments'' \<longrightarrow>
                     uc key = (case stored_user_configs file username of
                                 None \<Rightarrow> None | Some old \<Rightarrow> old key))))
   \<and> cfg_language (save_config b64 file username token theme user_comments None)
       = Some (case cfg_language (read_existing_data file) of None \<Rightarrow> ''en'' | Some l \<Rightarrow> l)
   \<and> (\<forall>d l. file = Stored d \<and> cfg_language d = Some l \<longrightarrow>
         cfg_language (save_config b64 file username token theme user_comments None) = Some l)"
  by (auto simp: save_config_def read_existing_data_def Let_def split: option.splits)

theorem comments_frame_witness:
  "(\<exists>ucs. cfg_user_configs
             (save_config (\<lambda>t. t) sample_config_file ''u0'' ''tok'' ''dark''
                (Some [''org/repo-a'' \<mapsto> ''new'']) None) = Some ucs
        \<and> ucs ''u1'' = Some [''comments'' \<mapsto> [''me/tool'' \<mapsto> ''mine'']])
   \<and> cfg_language
        (save_config (\<lambda>t. t) sample_config_file ''u0'' ''tok'' ''dark''
           (Some [''org/repo-a'' \<mapsto> ''new'']) None) = Some ''fr''"
proof -
  note frame = comments_frame [of "\<lambda>t. t" sample_config_file "''u0''" "''tok''" "''dark''"
        "[''org/repo-a'' \<mapsto> ''new'']" None "Some [''org/repo-a'' \<mapsto> ''new'']"]
  have u: "''u1'' \<noteq> ''u0''" by simp
  have s: "stored_user_configs sample_config_file ''u1''
             = Some [''comments'' \<mapsto> [''me/tool'' \<mapsto> ''mine'']]"
    by (simp add: stored_user_configs_def sample_config_file_def read_existing_data_def)
  have l: "cfg_language (read_existing_data sample_config_file) = Some ''fr''"
    by (simp add: sample_config_file_def read_existing_data_def)
  obtain ucs where a: "cfg_user_configs
             (save_config (\<lambda>t. t) sample_config_file ''u0'' ''tok'' ''dark''
                (Some [''org/repo-a'' \<mapsto> ''new'']) None) = Some ucs"
    and b: "\<forall>other. other \<noteq> ''u0'' \<longrightarrow> ucs other = stored_user_configs sample_config_file other"
    using frame by blast
  have c: "ucs ''u1'' = Some [''comments'' \<mapsto> [''me/tool'' \<mapsto> ''mine'']]"
    using b u s by simp
  have "cfg_language
        (save_config (\<lambda>t. t) sample_config_file ''u0'' ''tok'' ''dark''
           (Some [''org/repo-a'' \<mapsto> ''new'']) None)
        = Some (case cfg_language (read_existing_data sample_config_file) of
                  None \<Rightarrow> ''en'' | Some l \<Rightarrow> l)"
    using frame by blast
  then have d: "cfg_language
        (save_config (\<lambda>t. t) sample_config_file ''u0'' ''tok'' ''dark''
           (Some [''org/repo-a'' \<mapsto> ''new'']) None) = Some ''fr''"
    by (simp add: l)
  show ?thesis using a c d by blast
qed

section \<open>The API client and the pipeline\<close>

text \<open>
  Claim C4, as the code has it. \<^verbatim>\<open>test_github_auth\<close> has no exception handler: a transport
  failure and a body that is not JSON propagate as exceptions, and so does a \<^verbatim>\<open>null\<close> under
  \<^verbatim>\<open>data\<close> or \<^verbatim>\<open>viewer\<close>. On a parsed response it returns false when the key \<^verbatim>\<open>errors\<close> is
  present, and otherwise true exactly when \<^verbatim>\<open>data.viewer.login\<close> is present and not \<^verbatim>\<open>null\<close>.
\<close>

theorem auth_outcome:
  "(http_post env (graphql_request viewer_query token) = TransportFailure
      \<longrightarrow> test_github_auth env username token = Inl RequestException)
   \<and> (http_post env (graphql_request viewer_query token) = NotJSON
      \<longrightarrow> test_github_auth env username token = Inl JSONDecodeError)
   \<and> (\<forall>body. http_post env (graphql_request viewer_query token) = Json body \<and> has_errors body
      \<longrightarrow> test_github_auth env username token = Inr False)
   \<and> (\<forall>body. http_post env (graphql_request viewer_query token) = Json body
         \<and> \<not> has_errors body \<and> data body \<noteq> Null \<and> (\<forall>d. data body = Val d \<longrightarrow> viewer d \<noteq> Null)
      \<longrightarrow> test_github_auth env username token
            = Inr (\<exists>d v l. data body = Val d \<and> viewer d = Val v \<and> login v = Val l))
   \<and> (\<forall>body. http_post env (graphql_request viewer_query token) = Json body
         \<and> \<not> has_errors body \<and> (data body = Null \<or> (\<exists>d. data body = Val d \<and> viewer d = Null))
      \<longrightarrow> test_github_auth env username token = Inl AttributeError)"
  by (auto simp: test_github_auth_def post_json_def split: field.splits http_outcome.splits)

theorem auth_outcome_witness:
  "test_github_auth (sample_env (\<lambda>r. Json (viewer_body (Val ''octocat'')))) ''octocat'' ''tok'' = Inr True
   \<and> test_github_auth (sample_env (\<lambda>r. Json (viewer_body Null))) ''octocat'' ''tok'' = Inr False
   \<and> test_github_auth (sample_env (\<lambda>r. Json errors_body)) ''octocat'' ''tok'' = Inr False
   \<and> test_github_auth (sample_env (\<lambda>r. TransportFailure)) ''octocat'' ''tok'' = Inl RequestException
   \<and> test_github_auth (sample_env (\<lambda>r. NotJSON)) ''octocat'' ''tok'' = Inl JSONDecodeError
   \<and> test_github_auth
        (sample_env (\<lambda>r. Json \<lparr>has_errors = False, data = Null\<rparr>)) ''octocat'' ''tok''
       = Inl AttributeError"
proof -
  have a: "test_github_auth (sample_env (\<lambda>r. Json (viewer_body (Val ''octocat'')))) ''octocat'' ''tok''
           = Inr True"
    using auth_outcome [of "sample_env (\<lambda>r. Json (viewer_body (Val ''octocat'')))" "''tok''" "''octocat''"]
    by (simp add: sample_env_def viewer_body_def)
  have b: "test_github_auth (sample_env (\<lambda>r. Json (viewer_body Null))) ''octocat'' ''tok'' = Inr False"
    using auth_outcome [of "sample_env (\<lambda>r. Json (viewer_body Null))" "''tok''" "''octocat''"]
    by (simp add: sample_env_def viewer_body_def)
  have c: "test_github_auth (sample_env (\<lambda>r. Json errors_body)) ''octocat'' ''tok'' = Inr False"
    using auth_outcome [of "sample_env (\<lambda>r. Json errors_body)" "''tok''" "''octocat''"]
    by (simp add: sample_env_def errors_body_def)
  have d: "test_github_auth (sample_env (\<lambda>r. TransportFailure)) ''octocat'' ''tok''
           = Inl RequestException"
    using auth_outcome [of "sample_env (\<lambda>r. TransportFailure)" "''tok''" "''octocat''"]
    by (simp add: sample_env_def)
  have e: "test_github_auth (sample_env (\<lambda>r. NotJSON)) ''octocat'' ''tok'' = Inl JSONDecodeError"
    using auth_outcome [of "sample_env (\<lambda>r. NotJSON)" "''tok''" "''octocat''"]
    by (simp add: sample_env_def)
  have f: "test_github_auth
        (sample_env (\<lambda>r. Json \<lparr>has_errors = False, data = Null\<rparr>)) ''octocat'' ''tok''
       = Inl AttributeError"
    using auth_outcome [of "sample_env (\<lambda>r. Json \<lparr>has_errors = False, data = Null\<rparr>)" "''tok''" "''octocat''"]
    by (simp add: sample_env_def)
  show ?thesis using a b c d e f by simp
qed

text \<open>
  Claim C4 as stated fails: a transport failure and a malformed body raise instead of
  yielding false, and an empty login yields true.
\<close>

theorem auth_counterexample:
  "test_github_auth (sample_env (\<lambda>r. TransportFailure)) ''octocat'' ''tok'' = Inl RequestException
   \<and> test_github_auth (sample_env (\<lambda>r. NotJSON)) ''octocat'' ''tok'' = Inl JSONDecodeError
   \<and> test_github_auth (sample_env (\<lambda>r. Json (viewer_body (Val '''')))) ''octocat'' ''tok'' = Inr True"
  by (simp add: test_github_auth_def post_json_def sample_env_def viewer_body_def)

lemma replace_created: "replace ''Z'' ''+00:00'' ''2020-01-15T10:00:00Z'' = ''2020-01-15T10:00:00+00:00''"
  by code_simp

lemma foldl_snoc_map: "foldl (\<lambda>qs x. qs @ [f x]) acc xs = acc @ map f xs"
  by (induction xs arbitrary: acc) auto

lemma contributions_queries_eq:
  "contributions_queries created_year current_year =
     build_current_year_query # map build_year_query [created_year..current_year - 1]"
  by (simp add: contributions_queries_def foldl_snoc_map)

lemma join_Cons: "join sep (x # ys) = x @ (if ys = [] then [] else sep @ join sep ys)"
  by (cases ys) auto

lemma current_head: "\<exists>rest. build_current_year_query = CHR 0x0A # rest"
  by (simp add: build_current_year_query_def newline_def)

lemma joined_head: "\<exists>rest. join newline (contributions_queries cy ny) = CHR 0x0A # rest"
proof -
  obtain rest where r: "build_current_year_query = CHR 0x0A # rest"
    using current_head by blast
  show ?thesis unfolding contributions_queries_eq join_Cons r by simp
qed

lemma replace_Cons:
  "old \<noteq> [] \<Longrightarrow> replace old new (c # s) =
     (if take (length old) (c # s) = old then new @ replace old new (drop (length old) (c # s))
      else c # replace old new s)"
  by (subst replace.simps) simp

lemma fetch_query_prefix:
  \<open>\<exists>rest. replace ''{username}'' ''octocat'' (build_contributions_query cy ny)
     = CHR 0x0A # ''    {'' @ CHR 0x0A # ''        user(login: "octocat") {'' @ CHR 0x0A
         # ''            '' @ CHR 0x0A # rest\<close>
proof -
  obtain j where j: "join newline (contributions_queries cy ny) = CHR 0x0A # j"
    using joined_head by blast
  show ?thesis
    by (simp add: build_contributions_query_def j [unfolded newline_def] newline_def replace_Cons)
qed

lemma fetch_query_differs:
  "replace ''{username}'' ''octocat'' (build_contributions_query cy ny) \<noteq> user_info_query ''octocat''"
proof -
  obtain rest where "replace ''{username}'' ''octocat'' (build_contributions_query cy ny)
     = CHR 0x0A # ''    {'' @ CHR 0x0A # ''        user(login: '' @ CHR 0x22 # ''octocat'' @ CHR 0x22 # '') {'' @ CHR 0x0A
         # ''            '' @ CHR 0x0A # rest"
    using fetch_query_prefix by auto
  then show ?thesis by (simp add: user_info_query_def newline_def)
qed

lemma join_title_nonempty: "join sep ((x # xs) # ys) \<noteq> []"
  by (cases ys) auto

lemma content_nonempty: "build_readme_content username rd user_comments get_text \<noteq> []"
  by (simp add: build_readme_content_def readme_lines_def Let_def join_title_nonempty)

lemma lookup_year:
  assumes "http_post env (graphql_request (user_info_query username) token) = Json b"
    "\<not> has_errors b" "data b = Val d" "user d = Val u" "createdAt u = Val s"
    "fromisoformat_year env (replace ''Z'' ''+00:00'' s) = Some y"
  shows "get_user_creation_year env username token = Inr (Some y)"
  using assms by (simp add: get_user_creation_year_def post_json_def)

lemma replace_no_Z: "replace ''Z'' ''+00:00'' ''yesterday'' = ''yesterday''"
  by code_simp

text \<open>
  Claim C5, as the code has it. \<^verbatim>\<open>generate_readme_content\<close> returns the empty string with the
  empty dictionary when the account query is answered with the key \<^verbatim>\<open>errors\<close>, and when the
  account query gives a creation year and the contribution query is answered with the key
  \<^verbatim>\<open>errors\<close> or with a \<^verbatim>\<open>null\<close> user. Nothing is caught: on either query a transport failure
  raises \<^verbatim>\<open>RequestException\<close> and a body that is not JSON \<^verbatim>\<open>JSONDecodeError\<close>; a missing
  \<^verbatim>\<open>data\<close> or \<^verbatim>\<open>user\<close> key raises \<^verbatim>\<open>KeyError\<close> and a \<^verbatim>\<open>null\<close> \<^verbatim>\<open>data\<close> \<^verbatim>\<open>TypeError\<close>; in the
  account query a \<^verbatim>\<open>null\<close> user raises \<^verbatim>\<open>TypeError\<close>, a missing \<^verbatim>\<open>createdAt\<close> \<^verbatim>\<open>KeyError\<close>, a
  \<^verbatim>\<open>null\<close> one \<^verbatim>\<open>AttributeError\<close>, and a timestamp that the parser rejects \<^verbatim>\<open>ValueError\<close>.
  In the remaining case the document is returned with the aggregated data, and it is not the
  empty string.
\<close>

theorem generate_failure_sentinel:
  "(http_post env (graphql_request (user_info_query username) token) = TransportFailure
      \<longrightarrow> generate_readme_content env username token user_comments get_text
            = Inl RequestException)
   \<and> (http_post env (graphql_request (user_info_query username) token) = NotJSON
      \<longrightarrow> generate_readme_content env username token user_comments get_text
            = Inl JSONDecodeError)
   \<and> (\<forall>b. http_post env (graphql_request (user_info_query username) token) = Json b
          \<and> has_errors b
      \<longrightarrow> generate_readme_content env username token user_comments get_text = Inr ('''', None))
   \<and> (\<forall>b. http_post env (graphql_request (user_info_query username) token) = Json b
          \<and> \<not> has_errors b \<and> data b = Missing
      \<longrightarrow> generate_readme_content env username token user_comments get_text = Inl KeyError)
   \<and> (\<forall>b. http_post env (graphql_request (user_info_query username) token) = Json b
          \<and> \<not> has_errors b \<and> data b = Null
      \<longrightarrow> generate_readme_content env username token user_comments get_text = Inl TypeError)
   \<and> (\<forall>b d. http_post env (graphql_request (user_info_query username) token) = Json b
          \<and> \<not> has_errors b \<and> data b = Val d \<and> user d = Missing
      \<longrightarrow> generate_readme_content env username token user_comments get_text = Inl KeyError)
   \<and> (\<forall>b d. http_post env (graphql_request (user_info_query username) token) = Json b
          \<and> \<not> has_errors b \<and> data b = Val d \<and> user d = Null
      \<longrightarrow> generate_readme_content env username token user_comments get_text = Inl TypeError)
   \<and> (\<forall>b d u. http_post env (graphql_request (user_info_query username) token) = Json b
          \<and> \<not> has_errors b \<and> data b = Val d \<and> user d = Val u \<and> createdAt u = Missing
      \<longrightarrow> generate_readme_content env username token user_comments get_text = Inl KeyError)
   \<and> (\<forall>b d u. http_post env (graphql_request (user_info_query username) token) = Json b
          \<and> \<not> has_errors b \<and> data b = Val d \<and> user d = Val u \<and> createdAt u = Null
      \<longrightarrow> generate_readme_content env username token user_comments get_text
            = Inl AttributeError)
   \<and> (\<forall>b d u s. http_post env (graphql_request (user_info_query username) token) = Json b
          \<and> \<not> has_errors b \<and> data b = Val d \<and> user d = Val u \<and> createdAt u = Val s
          \<and> fromisoformat_year env (replace ''Z'' ''+00:00'' s) = None
      \<longrightarrow> generate_readme_content env username token user_comments get_text = Inl ValueError)
   \<and> (\<forall>b d u s y.
          http_post env (graphql_request (user_info_query username) token) = Json b
          \<and> \<not> has_errors b \<and> data b = Val d \<and> user d = Val u \<and> createdAt u = Val s
          \<and> fromisoformat_year env (replace ''Z'' ''+00:00'' s) = Some y
      \<longrightarrow>
        (http_post env
           (graphql_request
              (replace ''{username}'' username (build_contributions_query y (now_year env)))
              token) = TransportFailure
         \<longrightarrow> generate_readme_content env username token user_comments get_text
               = Inl RequestException)
      \<and> (http_post env
           (graphql_request
              (replace ''{username}'' username (build_contributions_query y (now_year env)))
              token) = NotJSON
         \<longrightarrow> generate_readme_content env username token user_comments get_text
               = Inl JSONDecodeError)
      \<and> (\<forall>b2. http_post env
           (graphql_request
              (replace ''{username}'' username (build_contributions_query y (now_year env)))
              token) = Json b2
            \<longrightarrow>
              (has_errors b2
                 \<longrightarrow> generate_readme_content env username token user_comments get_text
                       = Inr ('''', None))
            \<and> (\<not> has_errors b2 \<and> data b2 = Missing
                 \<longrightarrow> generate_readme_content env username token user_comments get_text
                       = Inl KeyError)
            \<and> (\<not> has_errors b2 \<and> data b2 = Null
                 \<longrightarrow> generate_readme_content env username token user_comments get_text
                       = Inl TypeError)
            \<and> (\<forall>d2. \<not> has_errors b2 \<and> data b2 = Val d2 \<and> user d2 = Missing
                 \<longrightarrow> generate_readme_content env username token user_comments get_text
                       = Inl KeyError)
            \<and> (\<forall>d2. \<not> has_errors b2 \<and> data b2 = Val d2 \<and> user d2 = Null
                 \<longrightarrow> generate_readme_content env username token user_comments get_text
                       = Inr ('''', None))
            \<and> (\<forall>d2 u2. \<not> has_errors b2 \<and> data b2 = Val d2 \<and> user d2 = Val u2
                 \<longrightarrow> generate_readme_content env username token user_comments get_text
                       = Inr (build_readme_content username
                                (extract_repositories_data (collections u2)) user_comments get_text,
                              Some (extract_repositories_data (collections u2)))
                     \<and> build_readme_content username
                         (extract_repositories_data (collections u2)) user_comments get_text
                       \<noteq> '''')))"
proof -
  let ?gen = "generate_readme_content env username token user_comments get_text"
  let ?L = "http_post env (graphql_request (user_info_query username) token)"
  have a1: "?gen = Inl RequestException" if "?L = TransportFailure"
    using that by (simp add: generate_readme_content_def get_user_creation_year_def post_json_def)
  have a2: "?gen = Inl JSONDecodeError" if "?L = NotJSON"
    using that by (simp add: generate_readme_content_def get_user_creation_year_def post_json_def)
  have a3: "?gen = Inr ('''', None)" if "?L = Json b \<and> has_errors b" for b
    using that by (simp add: generate_readme_content_def get_user_creation_year_def post_json_def)
  have a4: "?gen = Inl KeyError" if "?L = Json b \<and> \<not> has_errors b \<and> data b = Missing" for b
    using that by (simp add: generate_readme_content_def get_user_creation_year_def post_json_def)
  have a5: "?gen = Inl TypeError" if "?L = Json b \<and> \<not> has_errors b \<and> data b = Null" for b
    using that by (simp add: generate_readme_content_def get_user_creation_year_def post_json_def)
  have a6: "?gen = Inl KeyError"
    if "?L = Json b \<and> \<not> has_errors b \<and> data b = Val d \<and> user d = Missing" for b d
    using that by (simp add: generate_readme_content_def get_user_creation_year_def post_json_def)
  have a7: "?gen = Inl TypeError"
    if "?L = Json b \<and> \<not> has_errors b \<and> data b = Val d \<and> user d = Null" for b d
    using that by (simp add: generate_readme_content_def get_user_creation_year_def post_json_def)
  have a8: "?gen = Inl KeyError"
    if "?L = Json b \<and> \<not> has_errors b \<and> data b = Val d \<and> user d = Val u
        \<and> createdAt u = Missing" for b d u
    using that by (simp add: generate_readme_content_def get_user_creation_year_def post_json_def)
  have a9: "?gen = Inl AttributeError"
    if "?L = Json b \<and> \<not> has_errors b \<and> data b = Val d \<and> user d = Val u
        \<and> createdAt u = Null" for b d u
    using that by (simp add: generate_readme_content_def get_user_creation_year_def post_json_def)
  have a10: "?gen = Inl ValueError"
    if "?L = Json b \<and> \<not> has_errors b \<and> data b = Val d \<and> user d = Val u
        \<and> createdAt u = Val s \<and> fromisoformat_year env (replace ''Z'' ''+00:00'' s) = None"
    for b d u s
    using that by (simp add: generate_readme_content_def get_user_creation_year_def post_json_def)
  show ?thesis
  proof (intro conjI allI impI, goal_cases)
    case 1 then show ?case by (rule a1)
  next
    case 2 then show ?case by (rule a2)
  next
    case 3 then show ?case by (rule a3)
  next
    case 4 then show ?case by (rule a4)
  next
    case 5 then show ?case by (rule a5)
  next
    case 6 then show ?case by (rule a6)
  next
    case 7 then show ?case by (rule a7)
  next
    case 8 then show ?case by (rule a8)
  next
    case 9 then show ?case by (rule a9)
  next
    case 10 then show ?case by (rule a10)
  next
    case (11 b d u s y)
    then have "get_user_creation_year env username token = Inr (Some y)"
      by (intro lookup_year) auto
    then show ?case using 11(2)
      by (simp add: generate_readme_content_def fetch_contributions_data_def post_json_def Let_def)
  next
    case (12 b d u s y)
    then have "get_user_creation_year env username token = Inr (Some y)"
      by (intro lookup_year) auto
    then show ?case using 12(2)
      by (simp add: generate_readme_content_def fetch_contributions_data_def post_json_def Let_def)
  next
    case (13 b d u s y b2)
    then have "get_user_creation_year env username token = Inr (Some y)"
      by (intro lookup_year) auto
    then show ?case using 13(2,3)
      by (simp add: generate_readme_content_def fetch_contributions_data_def post_json_def Let_def)
  next
    case (14 b d u s y b2)
    then have "get_user_creation_year env username token = Inr (Some y)"
      by (intro lookup_year) auto
    then show ?case using 14(2,3)
      by (simp add: generate_readme_content_def fetch_contributions_data_def post_json_def Let_def)
  next
    case (15 b d u s y b2)
    then have "get_user_creation_year env username token = Inr (Some y)"
      by (intro lookup_year) auto
    then show ?case using 15(2,3)
      by (simp add: generate_readme_content_def fetch_contributions_data_def post_json_def Let_def)
  next
    case (16 b d u s y b2 d2)
    then have "get_user_creation_year env username token = Inr (Some y)"
      by (intro lookup_year) auto
    then show ?case using 16(2,3)
      by (simp add: generate_readme_content_def fetch_contributions_data_def post_json_def Let_def)
  next
    case (17 b d u s y b2 d2)
    then have "get_user_creation_year env username token = Inr (Some y)"
      by (intro lookup_year) auto
    then show ?case using 17(2,3)
      by (simp add: generate_readme_content_def fetch_contributions_data_def post_json_def Let_def)
  next
    case (18 b d u s y b2 d2 u2)
    then have "get_user_creation_year env username token = Inr (Some y)"
      by (intro lookup_year) auto
    then show ?case using 18(2,3)
      by (simp add: generate_readme_content_def fetch_contributions_data_def post_json_def Let_def)
  next
    case (19 b d u s y b2 d2 u2)
    show ?case by (rule content_nonempty)
  qed
qed

theorem generate_failure_sentinel_witness:
  "generate_readme_content (sample_env (\<lambda>r. Json errors_body)) ''octocat'' ''tok''
      Map.empty (\<lambda>k. k) = Inr ('''', None)
   \<and> generate_readme_content (sample_env (sample_post errors_body)) ''octocat'' ''tok''
      Map.empty (\<lambda>k. k) = Inr ('''', None)
   \<and> generate_readme_content
        (sample_env (\<lambda>r. Json \<lparr>has_errors = False, data = Missing\<rparr>)) ''octocat'' ''tok''
      Map.empty (\<lambda>k. k) = Inl KeyError
   \<and> generate_readme_content
        (sample_env (\<lambda>r. Json \<lparr>has_errors = False,
                                data = Val \<lparr>viewer = Missing,
                                            user = Val \<lparr>createdAt = Val ''yesterday'',
                                                        collections = []\<rparr>\<rparr>\<rparr>))
        ''octocat'' ''tok'' Map.empty (\<lambda>k. k) = Inl ValueError"
proof -
  have h1: "http_post (sample_env (\<lambda>r. Json errors_body))
              (graphql_request (user_info_query ''octocat'') ''tok'') = Json errors_body
            \<and> has_errors errors_body"
    by (simp add: sample_env_def errors_body_def)
  have a: "generate_readme_content (sample_env (\<lambda>r. Json errors_body)) ''octocat'' ''tok''
      Map.empty (\<lambda>k. k) = Inr ('''', None)"
    by (rule generate_failure_sentinel [THEN conjunct2, THEN conjunct2, THEN conjunct1,
          THEN spec, THEN mp, OF h1])
  let ?u = "\<lparr>createdAt = Val ''2020-01-15T10:00:00Z'', collections = []\<rparr>"
  let ?d = "\<lparr>viewer = Missing, user = Val ?u\<rparr>"
  have h2: "http_post (sample_env (sample_post errors_body))
              (graphql_request (user_info_query ''octocat'') ''tok'') = Json lookup_body
            \<and> \<not> has_errors lookup_body \<and> data lookup_body = Val ?d \<and> user ?d = Val ?u
            \<and> createdAt ?u = Val ''2020-01-15T10:00:00Z''
            \<and> fromisoformat_year (sample_env (sample_post errors_body))
                  (replace ''Z'' ''+00:00'' ''2020-01-15T10:00:00Z'') = Some 2020"
    by (simp add: sample_env_def sample_post_def graphql_request_def lookup_body_def
        replace_created)
  have post: "http_post (sample_env (sample_post errors_body))
             (graphql_request
                (replace ''{username}'' ''octocat''
                   (build_contributions_query 2020
                      (now_year (sample_env (sample_post errors_body))))) ''tok'')
           = Json errors_body"
    by (simp add: sample_env_def sample_post_def graphql_request_def fetch_query_differs)
  have err: "has_errors errors_body" by (simp add: errors_body_def)
  have b: "generate_readme_content (sample_env (sample_post errors_body)) ''octocat'' ''tok''
      Map.empty (\<lambda>k. k) = Inr ('''', None)"
    by (rule generate_failure_sentinel [THEN conjunct2, THEN conjunct2, THEN conjunct2,
          THEN conjunct2, THEN conjunct2, THEN conjunct2, THEN conjunct2, THEN conjunct2,
          THEN conjunct2, THEN conjunct2, THEN spec, THEN spec, THEN spec, THEN spec, THEN spec,
          THEN mp, OF h2, THEN conjunct2, THEN conjunct2, THEN spec, THEN mp, OF post,
          THEN conjunct1, THEN mp, OF err])
  have h3: "http_post (sample_env (\<lambda>r. Json \<lparr>has_errors = False, data = Missing\<rparr>))
              (graphql_request (user_info_query ''octocat'') ''tok'')
              = Json \<lparr>has_errors = False, data = Missing\<rparr>
            \<and> \<not> has_errors \<lparr>has_errors = False, data = Missing\<rparr>
            \<and> data \<lparr>has_errors = False, data = Missing\<rparr> = Missing"
    by (simp add: sample_env_def)
  have c: "generate_readme_content
        (sample_env (\<lambda>r. Json \<lparr>has_errors = False, data = Missing\<rparr>)) ''octocat'' ''tok''
      Map.empty (\<lambda>k. k) = Inl KeyError"
    by (rule generate_failure_sentinel [THEN conjunct2, THEN conjunct2, THEN conjunct2,
          THEN conjunct1, THEN spec, THEN mp, OF h3])
  let ?bu = "\<lparr>createdAt = Val ''yesterday'', collections = []\<rparr>"
  let ?bd = "\<lparr>viewer = Missing, user = Val ?bu\<rparr>"
  let ?bb = "\<lparr>has_errors = False, data = Val ?bd\<rparr>"
  have h4: "http_post (sample_env (\<lambda>r. Json ?bb))
              (graphql_request (user_info_query ''octocat'') ''tok'') = Json ?bb
            \<and> \<not> has_errors ?bb \<and> data ?bb = Val ?bd \<and> user ?bd = Val ?bu
            \<and> createdAt ?bu = Val ''yesterday''
            \<and> fromisoformat_year (sample_env (\<lambda>r. Json ?bb))
                  (replace ''Z'' ''+00:00'' ''yesterday'') = None"
    by (simp add: sample_env_def replace_no_Z)
  have d: "generate_readme_content (sample_env (\<lambda>r. Json ?bb))
        ''octocat'' ''tok'' Map.empty (\<lambda>k. k) = Inl ValueError"
    by (rule generate_failure_sentinel [THEN conjunct2, THEN conjunct2, THEN conjunct2,
          THEN conjunct2, THEN conjunct2, THEN conjunct2, THEN conjunct2, THEN conjunct2,
          THEN conjunct2, THEN conjunct1, THEN spec, THEN spec, THEN spec, THEN spec,
          THEN mp, OF h4])
  show ?thesis using a b c d by (intro conjI)
qed

text \<open>
  Claim C5 as stated fails: a response without the key \<^verbatim>\<open>data\<close>, and a body that is not
  JSON, make the pipeline raise.
\<close>

theorem generate_malformed_counterexample:
  "generate_readme_content
      (sample_env (\<lambda>r. Json \<lparr>has_errors = False, data = Missing\<rparr>))
      ''octocat'' ''tok'' Map.empty (\<lambda>k. k) = Inl KeyError
   \<and> generate_readme_content (sample_env (\<lambda>r. NotJSON)) ''octocat'' ''tok'' Map.empty (\<lambda>k. k)
       = Inl JSONDecodeError"
  by (simp add: generate_readme_content_def get_user_creation_year_def post_json_def
      sample_env_def)

section \<open>The query builder\<close>



























lemma range_length: "length [a..b - 1] = nat (b - a)"
  by simp






end
